theory Spec2Isabelle
  imports Main
begin

section \<open>Text and bytes\<close>

text \<open>
  The program handles two kinds of sequences: \<open>bytes\<close> (the archive, the content of its
  entries, one line of the label file) and Python \<open>str\<close> (entry names, decoded lines,
  tokens). Bytes are lists of \<open>char\<close> (8 bits each); a \<open>str\<close> is the list of its code
  points. \<open>str\<close> turns an ASCII literal of the source into its code points.
\<close>

type_synonym bytes = "char list"
type_synonym pystr = "nat list"

definition str :: "string \<Rightarrow> pystr" where
  "str s = map of_char s"

subsection \<open>\<open>bytes.decode('utf-8')\<close>\<close>

text \<open>
  The strict UTF-8 codec: the shortest form only, no surrogates, nothing above U+10FFFF.
  \<open>None\<close> is \<open>UnicodeDecodeError\<close>.
\<close>

definition cont :: "char \<Rightarrow> bool" where
  "cont c = (128 \<le> (of_char c :: nat) \<and> (of_char c :: nat) \<le> 191)"

definition low6 :: "char \<Rightarrow> nat" where
  "low6 c = of_char c - 128"

fun utf8_decode :: "bytes \<Rightarrow> pystr option" where
  "utf8_decode [] = Some []"
| "utf8_decode [b] =
     (if (of_char b :: nat) < 128 then Some [of_char b] else None)"
| "utf8_decode [b, c1] =
     (let n = (of_char b :: nat) in
      if n < 128 then map_option ((#) n) (utf8_decode [c1])
      else if 194 \<le> n \<and> n \<le> 223 \<and> cont c1 then Some [(n - 192) * 64 + low6 c1]
      else None)"
| "utf8_decode [b, c1, c2] =
     (let n = (of_char b :: nat) in
      if n < 128 then map_option ((#) n) (utf8_decode [c1, c2])
      else if 194 \<le> n \<and> n \<le> 223 \<and> cont c1
        then map_option ((#) ((n - 192) * 64 + low6 c1)) (utf8_decode [c2])
      else if 224 \<le> n \<and> n \<le> 239 \<and> cont c1 \<and> cont c2
              \<and> (n = 224 \<longrightarrow> 160 \<le> (of_char c1 :: nat))
              \<and> (n = 237 \<longrightarrow> (of_char c1 :: nat) \<le> 159)
        then Some [(n - 224) * 4096 + low6 c1 * 64 + low6 c2]
      else None)"
| "utf8_decode (b # c1 # c2 # c3 # bs) =
     (let n = (of_char b :: nat) in
      if n < 128 then map_option ((#) n) (utf8_decode (c1 # c2 # c3 # bs))
      else if 194 \<le> n \<and> n \<le> 223 \<and> cont c1
        then map_option ((#) ((n - 192) * 64 + low6 c1)) (utf8_decode (c2 # c3 # bs))
      else if 224 \<le> n \<and> n \<le> 239 \<and> cont c1 \<and> cont c2
              \<and> (n = 224 \<longrightarrow> 160 \<le> (of_char c1 :: nat))
              \<and> (n = 237 \<longrightarrow> (of_char c1 :: nat) \<le> 159)
        then map_option ((#) ((n - 224) * 4096 + low6 c1 * 64 + low6 c2))
               (utf8_decode (c3 # bs))
      else if 240 \<le> n \<and> n \<le> 244 \<and> cont c1 \<and> cont c2 \<and> cont c3
              \<and> (n = 240 \<longrightarrow> 144 \<le> (of_char c1 :: nat))
              \<and> (n = 244 \<longrightarrow> (of_char c1 :: nat) \<le> 143)
        then map_option
               ((#) ((n - 240) * 262144 + low6 c1 * 4096 + low6 c2 * 64 + low6 c3))
               (utf8_decode bs)
      else None)"

subsection \<open>\<open>str.strip()\<close>, \<open>str.split()\<close>, \<open>str.endswith\<close>, \<open>str.split('/')\<close>\<close>

text \<open>The code points for which \<open>str.isspace\<close> holds; \<open>strip\<close> and \<open>split\<close> use them.\<close>

definition py_isspace :: "nat \<Rightarrow> bool" where
  "py_isspace c =
     ((9 \<le> c \<and> c \<le> 13) \<or> (28 \<le> c \<and> c \<le> 32) \<or> c = 133 \<or> c = 160 \<or> c = 5760
      \<or> (8192 \<le> c \<and> c \<le> 8202) \<or> c = 8232 \<or> c = 8233 \<or> c = 8239 \<or> c = 8287
      \<or> c = 12288)"

definition py_strip :: "pystr \<Rightarrow> pystr" where
  "py_strip s = rev (dropWhile py_isspace (rev (dropWhile py_isspace s)))"

text \<open>
  \<open>split()\<close> without a separator: the maximal runs of non-space code points, in order.
  \<open>tok\<close> is the run being read.
\<close>

fun split_run :: "pystr \<Rightarrow> pystr \<Rightarrow> pystr list" where
  "split_run tok [] = (if tok = [] then [] else [tok])"
| "split_run tok (c # cs) =
     (if py_isspace c then (if tok = [] then split_run [] cs else tok # split_run [] cs)
      else split_run (tok @ [c]) cs)"

definition py_split :: "pystr \<Rightarrow> pystr list" where
  "py_split s = split_run [] s"

definition endswith :: "pystr \<Rightarrow> pystr \<Rightarrow> bool" where
  "endswith s suffix =
     (length suffix \<le> length s \<and> drop (length s - length suffix) s = suffix)"

text \<open>\<open>s.split(sep)\<close> for a one-character separator: never empty, \<open>[s]\<close> without \<open>sep\<close>.\<close>

fun split_on :: "nat \<Rightarrow> pystr \<Rightarrow> pystr list" where
  "split_on sep [] = [[]]"
| "split_on sep (c # cs) =
     (if c = sep then [] # split_on sep cs
      else (case split_on sep cs of
              [] \<Rightarrow> [[c]]
            | t # ts \<Rightarrow> (c # t) # ts))"

text \<open>
  Iterating over a binary file yields its lines, each with its terminating newline byte
  (\<open>0x0A\<close>); the last one may lack it.
\<close>

fun readlines :: "bytes \<Rightarrow> bytes list" where
  "readlines [] = []"
| "readlines (c # cs) =
     (if c = CHR 0x0A then [c] # readlines cs
      else (case readlines cs of
              [] \<Rightarrow> [[c]]
            | l # ls \<Rightarrow> (c # l) # ls))"

section \<open>Exceptions, the archive and the external collaborators\<close>

text \<open>
  Every exception the program can meet is a subclass of \<open>Exception\<close>, which the handler of
  \<open>process_images_to_tfrecord\<close> catches. \<open>External\<close> stands for those raised inside boto3,
  zipfile, PIL and tensorflow.
\<close>

datatype exn = ValueError | UnicodeDecodeError | KeyError | External string

text \<open>
  One entry of \<open>zip_ref.infolist()\<close>: its name, and what reading it gives (its bytes, or the
  exception raised by \<open>zip_ref.open\<close> or by the read).
\<close>

record zip_entry =
  filename :: pystr
  content :: "exn + bytes"

text \<open>
  \<open>zip_ref.open(name)\<close> with a name looks the entry up in the archive's table of names,
  where a later entry of the same name has replaced an earlier one.
\<close>

definition zip_open :: "zip_entry list \<Rightarrow> pystr \<Rightarrow> exn + bytes" where
  "zip_open zip_ref name =
     (case find (\<lambda>fi. filename fi = name) (rev zip_ref) of
        None \<Rightarrow> Inl KeyError
      | Some fi \<Rightarrow> content fi)"

text \<open>A bounding box, the dictionary built at lines 80 to 86.\<close>

record 'f bbox =
  xmin :: 'f
  ymin :: 'f
  xmax :: 'f
  ymax :: 'f
  label :: int

text \<open>The \<open>feature\<close> dictionary of \<open>image_to_tfrecord\<close>, the content of one record.\<close>

record 'f features =
  image_bytes :: bytes
  xmins :: "'f list"
  xmaxs :: "'f list"
  ymins :: "'f list"
  ymaxs :: "'f list"
  labels :: "int list"

text \<open>
  The library calls of the program, as functions of their arguments. \<open>'img\<close> is a decoded
  image, \<open>'f\<close> a Python float, \<open>'r\<close> a serialized record. A call that can raise returns
  the exception on the left, or as \<open>Some\<close> when it returns nothing.
  \<^item> \<open>get_object bucket key\<close>: \<open>boto3.client('s3')\<close>, \<open>get_object\<close> and the read of the body;
  \<^item> \<open>ZipFile buffer\<close>: opening the archive, giving its entries in listing order;
  \<^item> \<open>py_float\<close>, \<open>py_int\<close>: \<open>float(s)\<close> and \<open>int(s)\<close>, \<open>None\<close> for \<open>ValueError\<close>;
  \<^item> \<open>float_add\<close>: the sum of two floats;
  \<^item> \<open>Image_open\<close>: \<open>PIL.Image.open\<close> on the bytes of an entry;
  \<^item> \<open>save_jpeg\<close>: \<open>img.save(buffer, format='JPEG')\<close> and \<open>getvalue()\<close>;
  \<^item> \<open>SerializeToString\<close>: building the \<open>tf.train.Example\<close> from the feature dictionary
    and serializing it;
  \<^item> \<open>writer_open\<close>, \<open>writer_write\<close>, \<open>writer_close\<close>: \<open>tf.io.TFRecordWriter\<close> on
    \<open>/tmp/data.tfrecord\<close>, its \<open>write\<close>, and the \<open>close\<close> that ends the \<open>with\<close> block;
  \<^item> \<open>upload_file bucket key records\<close>: \<open>s3.upload_file\<close> of the file holding \<open>records\<close>.
\<close>

record ('img, 'f, 'r) env =
  get_object :: "pystr \<Rightarrow> pystr \<Rightarrow> exn + bytes"
  ZipFile :: "bytes \<Rightarrow> exn + zip_entry list"
  py_float :: "pystr \<Rightarrow> 'f option"
  float_add :: "'f \<Rightarrow> 'f \<Rightarrow> 'f"
  py_int :: "pystr \<Rightarrow> int option"
  Image_open :: "bytes \<Rightarrow> exn + 'img"
  save_jpeg :: "'img \<Rightarrow> exn + bytes"
  SerializeToString :: "'f features \<Rightarrow> exn + 'r"
  writer_open :: "exn option"
  writer_write :: "'r \<Rightarrow> exn option"
  writer_close :: "exn option"
  upload_file :: "pystr \<Rightarrow> pystr \<Rightarrow> 'r list \<Rightarrow> exn option"

text \<open>
  What a run leaves behind: the calls of \<open>logger.error\<close>, the records in
  \<open>/tmp/data.tfrecord\<close> (\<open>None\<close> while the run has not opened the file), and the uploads
  done (bucket, key, records).
\<close>

datatype log_entry = MissingArguments | LocationNotFound | ProcessingError exn

record 'r effects =
  logged :: "log_entry list"
  tfrecord_file :: "'r list option"
  uploaded :: "(pystr \<times> pystr \<times> 'r list) list"

definition no_effects :: "'r effects" where
  "no_effects = \<lparr>logged = [], tfrecord_file = None, uploaded = []\<rparr>"

text \<open>How a call ends: it returns, or \<open>sys.exit(n)\<close> ends the process with status \<open>n\<close>.\<close>

datatype completion = Returned | SysExit int

section \<open>\<open>image_to_tfrecord\<close>\<close>

text \<open>Lines 39 to 52: the five lists and the feature dictionary.\<close>

definition make_features :: "bytes \<Rightarrow> 'f bbox list \<Rightarrow> 'f features" where
  "make_features img_byte_arr bboxes =
     (let xmins = map xmin bboxes;
          xmaxs = map xmax bboxes;
          ymins = map ymin bboxes;
          ymaxs = map ymax bboxes;
          labels = map label bboxes
      in \<lparr>image_bytes = img_byte_arr, xmins = xmins, xmaxs = xmaxs,
          ymins = ymins, ymaxs = ymaxs, labels = labels\<rparr>)"

definition image_to_tfrecord ::
  "('img, 'f, 'r) env \<Rightarrow> 'img \<Rightarrow> 'f bbox list \<Rightarrow> exn + 'r" where
  "image_to_tfrecord E img bboxes =
     (case save_jpeg E img of
        Inl e \<Rightarrow> Inl e
      | Inr img_byte_arr \<Rightarrow> SerializeToString E (make_features img_byte_arr bboxes))"

section \<open>\<open>process_images_to_tfrecord\<close>\<close>

subsection \<open>The label file (lines 70 to 87)\<close>

type_synonym 'f index = "pystr \<rightharpoonup> 'f bbox list"

text \<open>
  The body of the loop over the lines, on the dictionary \<open>bboxes\<close>. The conversions run in
  the order of the dictionary display: \<open>float(x)\<close>, \<open>float(y)\<close>, \<open>float(x)\<close>,
  \<open>float(width)\<close>, \<open>float(y)\<close>, \<open>float(height)\<close>, \<open>int(class_id)\<close>. Each of them
  raises \<open>ValueError\<close> or nothing, so the second \<open>float(x)\<close> and \<open>float(y)\<close> add no case.
\<close>

definition make_bbox ::
  "('img, 'f, 'r) env \<Rightarrow> pystr \<Rightarrow> pystr \<Rightarrow> pystr \<Rightarrow> pystr \<Rightarrow> pystr \<Rightarrow> exn + 'f bbox" where
  "make_bbox E class_id x y width height =
     (case py_float E x of None \<Rightarrow> Inl ValueError | Some fx \<Rightarrow>
     (case py_float E y of None \<Rightarrow> Inl ValueError | Some fy \<Rightarrow>
     (case py_float E width of None \<Rightarrow> Inl ValueError | Some fw \<Rightarrow>
     (case py_float E height of None \<Rightarrow> Inl ValueError | Some fh \<Rightarrow>
     (case py_int E class_id of None \<Rightarrow> Inl ValueError | Some cid \<Rightarrow>
        Inr \<lparr>xmin = fx, ymin = fy, xmax = float_add E fx fw, ymax = float_add E fy fh,
             label = cid\<rparr>)))))"

definition parse_line ::
  "('img, 'f, 'r) env \<Rightarrow> 'f index \<Rightarrow> bytes \<Rightarrow> exn + 'f index" where
  "parse_line E bboxes line =
     (case utf8_decode line of
        None \<Rightarrow> Inl UnicodeDecodeError
      | Some text \<Rightarrow>
          (case py_split (py_strip text) of
             [image_name, class_id, x, y, width, height] \<Rightarrow>
               (let bboxes1 = (if bboxes image_name = None then bboxes(image_name \<mapsto> [])
                               else bboxes)
                in case make_bbox E class_id x y width height of
                     Inl e \<Rightarrow> Inl e
                   | Inr b \<Rightarrow>
                       Inr (bboxes1(image_name \<mapsto>
                              (case bboxes1 image_name of None \<Rightarrow> [] | Some bs \<Rightarrow> bs) @ [b])))
           | _ \<Rightarrow> Inr bboxes))"

fun parse_lines ::
  "('img, 'f, 'r) env \<Rightarrow> 'f index \<Rightarrow> bytes list \<Rightarrow> exn + 'f index" where
  "parse_lines E bboxes [] = Inr bboxes"
| "parse_lines E bboxes (line # rest) =
     (case parse_line E bboxes line of
        Inl e \<Rightarrow> Inl e
      | Inr bboxes' \<Rightarrow> parse_lines E bboxes' rest)"

text \<open>
  The first loop over the entries: it stops at the first name that ends with
  \<open>location.txt\<close>. \<open>Inr None\<close> is \<open>location_txt_found = False\<close>.
\<close>

definition load_annotations ::
  "('img, 'f, 'r) env \<Rightarrow> zip_entry list \<Rightarrow> exn + 'f index option" where
  "load_annotations E zip_ref =
     (case find (\<lambda>file_info. endswith (filename file_info) (str ''location.txt'')) zip_ref of
        None \<Rightarrow> Inr None
      | Some file_info \<Rightarrow>
          (case zip_open zip_ref (filename file_info) of
             Inl e \<Rightarrow> Inl e
           | Inr label_file \<Rightarrow>
               (case parse_lines E Map.empty (readlines label_file) of
                  Inl e \<Rightarrow> Inl e
                | Inr bboxes \<Rightarrow> Inr (Some bboxes))))"

subsection \<open>The image pass (lines 93 to 104)\<close>

definition is_image :: "pystr \<Rightarrow> bool" where
  "is_image name =
     (endswith name (str ''.png'') \<or> endswith name (str ''.jpg'')
      \<or> endswith name (str ''.jpeg''))"

text \<open>
  The body of the loop for one image entry, lines 96 to 104: the record written for it,
  or the exception that leaves the loop.
\<close>

definition process_entry ::
  "('img, 'f, 'r) env \<Rightarrow> zip_entry list \<Rightarrow> 'f index \<Rightarrow> zip_entry \<Rightarrow> exn + 'r" where
  "process_entry E zip_ref bboxes file_info =
     (case zip_open zip_ref (filename file_info) of
        Inl e \<Rightarrow> Inl e
      | Inr file \<Rightarrow>
          (case Image_open E file of
             Inl e \<Rightarrow> Inl e
           | Inr img \<Rightarrow>
               (let image_bboxes =
                      (case bboxes (last (split_on 47 (filename file_info))) of
                         None \<Rightarrow> []
                       | Some bs \<Rightarrow> bs)
                in case image_to_tfrecord E img image_bboxes of
                     Inl e \<Rightarrow> Inl e
                   | Inr tfrecord \<Rightarrow>
                       (case writer_write E tfrecord of
                          Some e \<Rightarrow> Inl e
                        | None \<Rightarrow> Inr tfrecord))))"

text \<open>
  The loop over the entries, with the records written so far. An exception leaves the
  file with the records written before it.
\<close>

fun write_images ::
  "('img, 'f, 'r) env \<Rightarrow> zip_entry list \<Rightarrow> 'f index \<Rightarrow> zip_entry list \<Rightarrow> 'r list
     \<Rightarrow> exn option \<times> 'r list" where
  "write_images E zip_ref bboxes [] written = (None, written)"
| "write_images E zip_ref bboxes (file_info # rest) written =
     (if is_image (filename file_info)
      then (case process_entry E zip_ref bboxes file_info of
              Inl e \<Rightarrow> (Some e, written)
            | Inr tfrecord \<Rightarrow> write_images E zip_ref bboxes rest (written @ [tfrecord]))
      else write_images E zip_ref bboxes rest written)"

subsection \<open>The whole function, and \<open>main\<close>\<close>

text \<open>The body of the \<open>try\<close>: \<open>Inl\<close> an exception raised in it, \<open>Inr\<close> when it ends or returns.\<close>

definition try_body ::
  "('img, 'f, 'r) env \<Rightarrow> pystr \<Rightarrow> pystr \<Rightarrow> pystr \<Rightarrow> pystr \<Rightarrow> (exn + unit) \<times> 'r effects" where
  "try_body E source_bucket zip_key target_bucket output_prefix =
     (case get_object E source_bucket zip_key of
        Inl e \<Rightarrow> (Inl e, no_effects)
      | Inr buffer \<Rightarrow>
     (case ZipFile E buffer of
        Inl e \<Rightarrow> (Inl e, no_effects)
      | Inr zip_ref \<Rightarrow>
     (case load_annotations E zip_ref of
        Inl e \<Rightarrow> (Inl e, no_effects)
      | Inr None \<Rightarrow> (Inr (), no_effects\<lparr>logged := [LocationNotFound]\<rparr>)
      | Inr (Some bboxes) \<Rightarrow>
     (case writer_open E of
        Some e \<Rightarrow> (Inl e, no_effects)
      | None \<Rightarrow>
     (case write_images E zip_ref bboxes zip_ref [] of
        (Some e, written) \<Rightarrow>
          (case writer_close E of
             Some e' \<Rightarrow> (Inl e', no_effects\<lparr>tfrecord_file := Some written\<rparr>)
           | None \<Rightarrow> (Inl e, no_effects\<lparr>tfrecord_file := Some written\<rparr>))
      | (None, written) \<Rightarrow>
     (case writer_close E of
        Some e \<Rightarrow> (Inl e, no_effects\<lparr>tfrecord_file := Some written\<rparr>)
      | None \<Rightarrow>
     (case upload_file E target_bucket (output_prefix @ str ''/data.tfrecord'') written of
        Some e \<Rightarrow> (Inl e, no_effects\<lparr>tfrecord_file := Some written\<rparr>)
      | None \<Rightarrow>
          (Inr (), no_effects\<lparr>tfrecord_file := Some written,
             uploaded := [(target_bucket, output_prefix @ str ''/data.tfrecord'',
                           written)]\<rparr>))))))))"

definition process_images_to_tfrecord ::
  "('img, 'f, 'r) env \<Rightarrow> pystr \<Rightarrow> pystr \<Rightarrow> pystr \<Rightarrow> pystr \<Rightarrow> completion \<times> 'r effects" where
  "process_images_to_tfrecord E source_bucket zip_key target_bucket output_prefix =
     (case try_body E source_bucket zip_key target_bucket output_prefix of
        (Inl e, eff) \<Rightarrow> (SysExit 2, eff\<lparr>logged := logged eff @ [ProcessingError e]\<rparr>)
      | (Inr u, eff) \<Rightarrow> (Returned, eff))"

text \<open>
  The status of the process: that of \<open>sys.exit\<close>, or 0 when \<open>main\<close> returns.
\<close>

fun exit_code :: "completion \<Rightarrow> int" where
  "exit_code Returned = 0"
| "exit_code (SysExit n) = n"

text \<open>\<open>main\<close> on the resolved job parameters \<open>args\<close>: the exit status and the effects.\<close>

definition main ::
  "('img, 'f, 'r) env \<Rightarrow> (pystr \<rightharpoonup> pystr) \<Rightarrow> int \<times> 'r effects" where
  "main E args =
     (case (args (str ''source_bucket''), args (str ''zip_key''),
            args (str ''target_bucket''), args (str ''output_prefix'')) of
        (Some source_bucket, Some zip_key, Some target_bucket, Some output_prefix) \<Rightarrow>
          (let (c, eff) =
                 process_images_to_tfrecord E source_bucket zip_key target_bucket
                   output_prefix
           in (exit_code c, eff))
      | _ \<Rightarrow> (2, no_effects\<lparr>logged := [MissingArguments]\<rparr>))"

section \<open>A concrete environment\<close>

text \<open>
  An instance of the library calls on which the program can be run: floats are the
  integers (on which the sum of two floats is exact below \<open>2^53\<close>), \<open>float\<close> and \<open>int\<close>
  read a run of ASCII digits, a decoded image is the bytes of its entry, an empty entry is
  not an image, and a record is its feature dictionary. The store holds the archive
  \<open>entries\<close> under every key.
\<close>

definition ascii_decimal :: "pystr \<Rightarrow> int option" where
  "ascii_decimal s =
     (if s \<noteq> [] \<and> list_all (\<lambda>c. 48 \<le> c \<and> c \<le> 57) s
      then Some (int (foldl (\<lambda>a c. 10 * a + (c - 48)) 0 s))
      else None)"

definition sample_env :: "zip_entry list \<Rightarrow> (bytes, int, int features) env" where
  "sample_env entries =
     \<lparr>get_object = (\<lambda>bucket key. Inr []),
      ZipFile = (\<lambda>buffer. Inr entries),
      py_float = ascii_decimal,
      float_add = (+),
      py_int = ascii_decimal,
      Image_open = (\<lambda>file. if file = [] then Inl (External ''UnidentifiedImageError'')
                            else Inr file),
      save_jpeg = Inr,
      SerializeToString = Inr,
      writer_open = None,
      writer_write = (\<lambda>r. None),
      writer_close = None,
      upload_file = (\<lambda>bucket key records. None)\<rparr>"

text \<open>Archives for the examples: an entry of a given name and content.\<close>

definition file_entry :: "string \<Rightarrow> bytes \<Rightarrow> zip_entry" where
  "file_entry name data = \<lparr>filename = str name, content = Inr data\<rparr>"

definition job_args :: "pystr \<rightharpoonup> pystr" where
  "job_args =
     [str ''source_bucket'' \<mapsto> str ''raw'', str ''zip_key'' \<mapsto> str ''plates.zip'',
      str ''target_bucket'' \<mapsto> str ''curated'', str ''output_prefix'' \<mapsto> str ''tf'']"

text \<open>Images only, no label file.\<close>

definition archive_without_labels :: "zip_entry list" where
  "archive_without_labels = [file_entry ''a.jpg'' ''AAA'', file_entry ''b.jpg'' ''BBB'']"

text \<open>The example of the specification: two images, and labels for the first only.\<close>

definition archive_two_images :: "zip_entry list" where
  "archive_two_images =
     [file_entry ''a.jpg'' ''AAA'', file_entry ''b.jpg'' ''BBB'',
      file_entry ''location.txt'' (''a.jpg 3 10 20 5 8'' @ [CHR 0x0A])]"

text \<open>The second image entry is empty, which \<open>Image_open\<close> of \<open>sample_env\<close> refuses.\<close>

definition archive_bad_image :: "zip_entry list" where
  "archive_bad_image =
     [file_entry ''a.jpg'' ''AAA'', file_entry ''b.jpg'' [], file_entry ''c.jpg'' ''CCC'',
      file_entry ''location.txt'' (''a.jpg 3 10 20 5 8'' @ [CHR 0x0A])]"

text \<open>A label line of six tokens whose class is not a number.\<close>

definition archive_bad_number :: "zip_entry list" where
  "archive_bad_number =
     [file_entry ''a.jpg'' ''AAA'',
      file_entry ''location.txt''
        (''a.jpg 3 10 20 5 8'' @ [CHR 0x0A] @ ''a.jpg car 1 2 3 4'' @ [CHR 0x0A])]"

text \<open>A label line that names its image with a directory, as the archive does.\<close>

definition archive_nested :: "zip_entry list" where
  "archive_nested =
     [file_entry ''d/a.jpg'' ''AAA'',
      file_entry ''d/location.txt'' (''d/a.jpg 1 2 3 4 5'' @ [CHR 0x0A])]"





text \<open>The image and the label file in a directory; the label line names the image alone.\<close>

definition archive_subdir :: "zip_entry list" where
  "archive_subdir =
     [file_entry ''imgs/a.jpg'' ''AAA'',
      file_entry ''imgs/location.txt'' (''a.jpg 3 10 20 5 8'' @ [CHR 0x0A])]"

section \<open>Properties of the record encoder\<close>

text \<open>
  C5: in the record that \<open>image_to_tfrecord\<close> returns, the lists \<open>xmins\<close>, \<open>xmaxs\<close>,
  \<open>ymins\<close>, \<open>ymaxs\<close> and \<open>labels\<close> all have the length of \<open>boxes\<close>, and position \<open>i\<close> of
  each of them holds the field of the \<open>i\<close>-th box: the record returned is the
  serialization of a feature dictionary with these lists.
\<close>

theorem image_to_tfrecord_lists:
  assumes "image_to_tfrecord E img boxes = Inr r"
  shows "\<exists>ex. SerializeToString E ex = Inr r
           \<and> save_jpeg E img = Inr (image_bytes ex)
           \<and> length (xmins ex) = length boxes \<and> length (xmaxs ex) = length boxes
           \<and> length (ymins ex) = length boxes \<and> length (ymaxs ex) = length boxes
           \<and> length (labels ex) = length boxes
           \<and> (\<forall>i<length boxes.
                 xmins ex ! i = xmin (boxes ! i) \<and> xmaxs ex ! i = xmax (boxes ! i)
               \<and> ymins ex ! i = ymin (boxes ! i) \<and> ymaxs ex ! i = ymax (boxes ! i)
               \<and> labels ex ! i = label (boxes ! i))"
proof -
  from assms obtain jpg where jpg: "save_jpeg E img = Inr jpg"
    and ser: "SerializeToString E (make_features jpg boxes) = Inr r"
    by (auto simp: image_to_tfrecord_def split: sum.splits)
  let ?ex = "make_features jpg boxes"
  have "save_jpeg E img = Inr (image_bytes ?ex)"
    using jpg by (simp add: make_features_def)
  moreover have "length (xmins ?ex) = length boxes" "length (xmaxs ?ex) = length boxes"
    "length (ymins ?ex) = length boxes" "length (ymaxs ?ex) = length boxes"
    "length (labels ?ex) = length boxes"
    by (simp_all add: make_features_def)
  moreover have "\<forall>i<length boxes.
                 xmins ?ex ! i = xmin (boxes ! i) \<and> xmaxs ?ex ! i = xmax (boxes ! i)
               \<and> ymins ?ex ! i = ymin (boxes ! i) \<and> ymaxs ?ex ! i = ymax (boxes ! i)
               \<and> labels ?ex ! i = label (boxes ! i)"
    by (simp add: make_features_def)
  ultimately show ?thesis using ser by blast
qed

theorem image_to_tfrecord_lists_witness:
  "image_to_tfrecord (sample_env []) ''AAA''
     [\<lparr>xmin = 10, ymin = 20, xmax = 15, ymax = 28, label = 3\<rparr>,
      \<lparr>xmin = 1, ymin = 2, xmax = 4, ymax = 6, label = 7\<rparr>]
   = Inr \<lparr>image_bytes = ''AAA'', xmins = [10, 1], xmaxs = [15, 4], ymins = [20, 2],
          ymaxs = [28, 6], labels = [3, 7]\<rparr>
   \<and> (\<exists>ex. SerializeToString (sample_env []) ex
             = Inr \<lparr>image_bytes = ''AAA'', xmins = [10, 1], xmaxs = [15, 4],
                    ymins = [20, 2], ymaxs = [28, 6], labels = [3, 7]\<rparr>
           \<and> length (xmins ex) = 2 \<and> length (xmaxs ex) = 2 \<and> length (ymins ex) = 2
           \<and> length (ymaxs ex) = 2 \<and> length (labels ex) = 2
           \<and> xmins ex ! 1 = 1 \<and> xmaxs ex ! 1 = 4 \<and> ymins ex ! 1 = 2 \<and> ymaxs ex ! 1 = 6
           \<and> labels ex ! 1 = 7)"
proof -
  let ?boxes = "[\<lparr>xmin = 10, ymin = 20, xmax = 15, ymax = 28, label = 3\<rparr>,
                 \<lparr>xmin = 1::int, ymin = 2, xmax = 4, ymax = 6, label = 7\<rparr>]"
  let ?r = "\<lparr>image_bytes = ''AAA'', xmins = [10, 1::int], xmaxs = [15, 4],
             ymins = [20, 2], ymaxs = [28, 6], labels = [3, 7]\<rparr>"
  have run: "image_to_tfrecord (sample_env []) ''AAA'' ?boxes = Inr ?r"
    by (simp add: image_to_tfrecord_def make_features_def sample_env_def)
  from image_to_tfrecord_lists [OF run]
  obtain ex where ex: "SerializeToString (sample_env []) ex = Inr ?r"
    and len: "length (xmins ex) = length ?boxes" "length (xmaxs ex) = length ?boxes"
      "length (ymins ex) = length ?boxes" "length (ymaxs ex) = length ?boxes"
      "length (labels ex) = length ?boxes"
    and idx: "\<forall>i<length ?boxes.
                 xmins ex ! i = xmin (?boxes ! i) \<and> xmaxs ex ! i = xmax (?boxes ! i)
               \<and> ymins ex ! i = ymin (?boxes ! i) \<and> ymaxs ex ! i = ymax (?boxes ! i)
               \<and> labels ex ! i = label (?boxes ! i)"
    by blast
  from idx have "xmins ex ! 1 = 1 \<and> xmaxs ex ! 1 = 4 \<and> ymins ex ! 1 = 2
                 \<and> ymaxs ex ! 1 = 6 \<and> labels ex ! 1 = 7"
    by simp
  with run ex len show ?thesis by auto
qed

section \<open>Properties of the annotation parser\<close>

lemma parse_lines_append:
  "parse_lines E bboxes (xs @ ys) =
     (case parse_lines E bboxes xs of
        Inl e \<Rightarrow> Inl e
      | Inr bboxes' \<Rightarrow> parse_lines E bboxes' ys)"
  by (induction xs arbitrary: bboxes) (auto split: sum.splits)

lemma parse_line_six:
  assumes "utf8_decode line = Some text"
    and "py_split (py_strip text) = [image_name, class_id, x, y, width, height]"
  shows "parse_line E bboxes line =
           (case make_bbox E class_id x y width height of
              Inl e \<Rightarrow> Inl e
            | Inr b \<Rightarrow>
                Inr (bboxes(image_name \<mapsto>
                       (case bboxes image_name of None \<Rightarrow> [] | Some bs \<Rightarrow> bs) @ [b])))"
  using assms by (auto simp: parse_line_def split: sum.splits option.splits)

lemma parse_line_not_six:
  assumes "utf8_decode line = Some text"
    and "length (py_split (py_strip text)) \<noteq> 6"
  shows "parse_line E bboxes line = Inr bboxes"
  using assms by (auto simp: parse_line_def split: list.splits)

text \<open>
  C3: a line that splits on whitespace into the six tokens \<open>image_name\<close>, \<open>class_id\<close>,
  \<open>x\<close>, \<open>y\<close>, \<open>width\<close>, \<open>height\<close>, with \<open>x\<close>, \<open>y\<close>, \<open>width\<close>, \<open>height\<close> read by \<open>float\<close>
  and \<open>class_id\<close> by \<open>int\<close>, appends to the list of \<open>image_name\<close> exactly one bounding
  box, with \<open>xmin = x\<close>, \<open>ymin = y\<close>, \<open>xmax = x + width\<close>, \<open>ymax = y + height\<close> (the sum of
  Python floats) and \<open>label = class_id\<close>.
\<close>

theorem parse_line_bbox:
  assumes "utf8_decode line = Some text"
    and "py_split (py_strip text) = [image_name, class_id, x, y, width, height]"
    and "py_float E x = Some fx" and "py_float E y = Some fy"
    and "py_float E width = Some fw" and "py_float E height = Some fh"
    and "py_int E class_id = Some cid"
  shows "parse_line E bboxes line =
           Inr (bboxes(image_name \<mapsto>
                  (case bboxes image_name of None \<Rightarrow> [] | Some bs \<Rightarrow> bs)
                  @ [\<lparr>xmin = fx, ymin = fy, xmax = float_add E fx fw,
                      ymax = float_add E fy fh, label = cid\<rparr>]))"
  using assms by (simp add: parse_line_six make_bbox_def)

text \<open>The line \<open>img1.jpg 3 10 20 5 8\<close> of the specification, on an empty index.\<close>

theorem parse_line_bbox_witness:
  "parse_line (sample_env []) Map.empty (''img1.jpg 3 10 20 5 8'' @ [CHR 0x0A])
   = Inr [str ''img1.jpg'' \<mapsto>
            [\<lparr>xmin = 10, ymin = 20, xmax = 15, ymax = 28, label = 3\<rparr>]]"
proof -
  let ?E = "sample_env [] :: (bytes, int, int features) env"
  have dec: "utf8_decode (''img1.jpg 3 10 20 5 8'' @ [CHR 0x0A])
             = Some (str ''img1.jpg 3 10 20 5 8'' @ [10])"
    by (simp add: str_def)
  have spl: "py_split (py_strip (str ''img1.jpg 3 10 20 5 8'' @ [10]))
             = [str ''img1.jpg'', str ''3'', str ''10'', str ''20'', str ''5'', str ''8'']"
    by (simp add: str_def py_split_def py_strip_def py_isspace_def)
  have fx: "py_float ?E (str ''10'') = Some 10" and fy: "py_float ?E (str ''20'') = Some 20"
    and fw: "py_float ?E (str ''5'') = Some 5" and fh: "py_float ?E (str ''8'') = Some 8"
    and ci: "py_int ?E (str ''3'') = Some 3"
    by (simp_all add: sample_env_def ascii_decimal_def str_def)
  have add: "float_add ?E 10 5 = 15" "float_add ?E 20 8 = 28"
    by (simp_all add: sample_env_def)
  show ?thesis
    using parse_line_bbox [OF dec spl fx fy fw fh ci, of Map.empty] add
    by simp
qed

text \<open>
  C4: a line whose whitespace split does not give six tokens is skipped: the index is
  left as it was and no exception is raised, so that the label file parses to the same
  result as the file without this line.
\<close>

theorem parse_line_skipped:
  assumes "utf8_decode line = Some text"
    and "length (py_split (py_strip text)) \<noteq> 6"
  shows "parse_line E bboxes line = Inr bboxes
         \<and> parse_lines E bboxes0 (before @ line # after)
           = parse_lines E bboxes0 (before @ after)"
proof -
  have skip: "parse_line E b line = Inr b" for b
    using assms by (rule parse_line_not_six)
  have step: "parse_lines E b (line # after) = parse_lines E b after" for b
    by (simp add: skip)
  have "parse_lines E bboxes0 (before @ line # after)
        = parse_lines E bboxes0 (before @ after)"
    by (simp only: parse_lines_append step)
  with skip show ?thesis by simp
qed

text \<open>
  The five-token line \<open>img1.jpg 3 10 20 5\<close> of the specification, between two lines that
  are accepted.
\<close>

theorem parse_line_skipped_witness:
  "length (py_split (py_strip (str ''img1.jpg 3 10 20 5'' @ [10]))) = 5
   \<and> parse_line (sample_env []) Map.empty (''img1.jpg 3 10 20 5'' @ [CHR 0x0A])
     = Inr Map.empty
   \<and> parse_lines (sample_env []) Map.empty
       ([''a.jpg 1 2 3 4 5'' @ [CHR 0x0A]]
        @ (''img1.jpg 3 10 20 5'' @ [CHR 0x0A]) # [''b.jpg 2 1 1 1 1'' @ [CHR 0x0A]])
     = parse_lines (sample_env []) Map.empty
         ([''a.jpg 1 2 3 4 5'' @ [CHR 0x0A]] @ [''b.jpg 2 1 1 1 1'' @ [CHR 0x0A]])"
proof -
  have dec: "utf8_decode (''img1.jpg 3 10 20 5'' @ [CHR 0x0A])
             = Some (str ''img1.jpg 3 10 20 5'' @ [10])"
    by (simp add: str_def)
  have len: "length (py_split (py_strip (str ''img1.jpg 3 10 20 5'' @ [10]))) = 5"
    by (simp add: str_def py_split_def py_strip_def py_isspace_def)
  then have ne: "length (py_split (py_strip (str ''img1.jpg 3 10 20 5'' @ [10]))) \<noteq> 6"
    by simp
  show ?thesis
    by (rule conjI [OF len parse_line_skipped [OF dec ne]])
qed

section \<open>Properties of the pipeline\<close>

lemma sample_env_simps:
  "get_object (sample_env es) b k = Inr []"
  "ZipFile (sample_env es) buf = Inr es"
  "py_float (sample_env es) = ascii_decimal"
  "py_int (sample_env es) = ascii_decimal"
  "float_add (sample_env es) = (+)"
  "Image_open (sample_env es) file = (if file = [] then Inl (External ''UnidentifiedImageError'') else Inr file)"
  "save_jpeg (sample_env es) = Inr"
  "SerializeToString (sample_env es) = Inr"
  "writer_open (sample_env es) = None"
  "writer_write (sample_env es) r = None"
  "upload_file (sample_env es) b k rs = None"
  "writer_close (sample_env es) = None"
  by (simp_all add: sample_env_def)

lemma try_body_fetched:
  assumes "get_object E sb zk = Inr buffer" and "ZipFile E buffer = Inr zip_ref"
  shows "try_body E sb zk tb pre =
     (case load_annotations E zip_ref of
        Inl e \<Rightarrow> (Inl e, no_effects)
      | Inr None \<Rightarrow> (Inr (), no_effects\<lparr>logged := [LocationNotFound]\<rparr>)
      | Inr (Some bboxes) \<Rightarrow>
     (case writer_open E of
        Some e \<Rightarrow> (Inl e, no_effects)
      | None \<Rightarrow>
     (case write_images E zip_ref bboxes zip_ref [] of
        (Some e, written) \<Rightarrow>
          (case writer_close E of
             Some e' \<Rightarrow> (Inl e', no_effects\<lparr>tfrecord_file := Some written\<rparr>)
           | None \<Rightarrow> (Inl e, no_effects\<lparr>tfrecord_file := Some written\<rparr>))
      | (None, written) \<Rightarrow>
     (case writer_close E of
        Some e \<Rightarrow> (Inl e, no_effects\<lparr>tfrecord_file := Some written\<rparr>)
      | None \<Rightarrow>
     (case upload_file E tb (pre @ str ''/data.tfrecord'') written of
        Some e \<Rightarrow> (Inl e, no_effects\<lparr>tfrecord_file := Some written\<rparr>)
      | None \<Rightarrow>
          (Inr (), no_effects\<lparr>tfrecord_file := Some written,
             uploaded := [(tb, pre @ str ''/data.tfrecord'', written)]\<rparr>))))))"
  using assms by (simp add: try_body_def)

lemma write_images_ok:
  "write_images E z b es written = (None, out) \<Longrightarrow>
   \<exists>rs. out = written @ rs
      \<and> list_all2 (\<lambda>fi r. process_entry E z b fi = Inr r)
           (filter (\<lambda>fi. is_image (filename fi)) es) rs"
proof (induction es arbitrary: written)
  case Nil
  then show ?case by simp
next
  case (Cons fi es)
  show ?case
  proof (cases "is_image (filename fi)")
    case False
    with Cons show ?thesis by simp
  next
    case True
    with Cons.prems obtain r where r: "process_entry E z b fi = Inr r"
      and rest: "write_images E z b es (written @ [r]) = (None, out)"
      by (auto split: sum.splits)
    from Cons.IH [OF rest] obtain rs where "out = (written @ [r]) @ rs"
      and "list_all2 (\<lambda>fi r. process_entry E z b fi = Inr r)
             (filter (\<lambda>fi. is_image (filename fi)) es) rs"
      by blast
    with True r show ?thesis
      by (intro exI [of _ "r # rs"]) simp
  qed
qed


lemma parse_lines_raises:
  "line \<in> set ls \<Longrightarrow> (\<And>b. isl (parse_line E b line)) \<Longrightarrow> isl (parse_lines E b0 ls)"
proof (induction ls arbitrary: b0)
  case Nil
  then show ?case by simp
next
  case (Cons l ls)
  show ?case
  proof (cases "parse_line E b0 l")
    case (Inl e)
    then show ?thesis by simp
  next
    case (Inr b1)
    with Cons.prems(2) [of b0] have "l \<noteq> line" by auto
    with Cons.prems have "line \<in> set ls" by simp
    from Cons.IH [OF this Cons.prems(2)] Inr show ?thesis by simp
  qed
qed

lemma make_bbox_raises:
  "py_int E class_id = None \<or> py_float E x = None \<or> py_float E y = None
     \<or> py_float E width = None \<or> py_float E height = None \<Longrightarrow>
   make_bbox E class_id x y width height = Inl ValueError"
  by (auto simp: make_bbox_def split: option.splits)


lemma archive_without_labels_find:
  "find (\<lambda>fi. endswith (filename fi) (str ''location.txt'')) archive_without_labels = None"
  by (simp add: archive_without_labels_def file_entry_def endswith_def str_def)

text \<open>
  C1: on an archive with no entry whose name ends with \<open>location.txt\<close>, the program logs
  the error, opens no output file and uploads nothing, but \<open>main\<close> then returns and the
  process ends with status 0, where the specification asks for status 2.
\<close>

theorem missing_location_exit_code:
  "main (sample_env archive_without_labels) job_args
   = (0, \<lparr>logged = [LocationNotFound], tfrecord_file = None, uploaded = []\<rparr>)"
proof -
  have args: "job_args (str ''source_bucket'') = Some (str ''raw'')"
    "job_args (str ''zip_key'') = Some (str ''plates.zip'')"
    "job_args (str ''target_bucket'') = Some (str ''curated'')"
    "job_args (str ''output_prefix'') = Some (str ''tf'')"
    by (simp_all add: job_args_def str_def)
  have "load_annotations (sample_env archive_without_labels) archive_without_labels = Inr None"
    by (simp add: load_annotations_def archive_without_labels_find)
  then have "try_body (sample_env archive_without_labels) (str ''raw'') (str ''plates.zip'')
               (str ''curated'') (str ''tf'')
             = (Inr (), no_effects\<lparr>logged := [LocationNotFound]\<rparr>)"
    by (simp add: try_body_fetched [OF sample_env_simps(1) sample_env_simps(2)])
  then show ?thesis
    by (simp add: main_def args process_images_to_tfrecord_def no_effects_def)
qed

text \<open>
  C10: a label line of six tokens of which \<open>class_id\<close> is not read by \<open>int\<close>, or one of
  \<open>x\<close>, \<open>y\<close>, \<open>width\<close>, \<open>height\<close> is not read by \<open>float\<close>, is not skipped: its
  conversion raises \<open>ValueError\<close>, the exception leaves the loop over the lines, and the run
  ends with \<open>sys.exit(2)\<close>, before any output file is opened.
\<close>

theorem malformed_number_aborts:
  assumes "get_object E source_bucket zip_key = Inr buffer"
    and "ZipFile E buffer = Inr zip_ref"
    and "find (\<lambda>fi. endswith (filename fi) (str ''location.txt'')) zip_ref = Some file_info"
    and "zip_open zip_ref (filename file_info) = Inr label_file"
    and "line \<in> set (readlines label_file)"
    and "utf8_decode line = Some text"
    and "py_split (py_strip text) = [image_name, class_id, x, y, width, height]"
    and "py_int E class_id = None \<or> py_float E x = None \<or> py_float E y = None
         \<or> py_float E width = None \<or> py_float E height = None"
  shows "parse_line E bboxes line = Inl ValueError
         \<and> (\<exists>e. process_images_to_tfrecord E source_bucket zip_key target_bucket output_prefix
                 = (SysExit 2, \<lparr>logged = [ProcessingError e], tfrecord_file = None,
                                uploaded = []\<rparr>))
         \<and> exit_code (fst (process_images_to_tfrecord E source_bucket zip_key target_bucket
                             output_prefix)) = 2"
proof -
  have bad: "parse_line E b line = Inl ValueError" for b
    using assms(6,7) make_bbox_raises [OF assms(8)] by (simp add: parse_line_six)
  have "isl (parse_lines E Map.empty (readlines label_file))"
    by (rule parse_lines_raises [OF assms(5)]) (simp add: bad)
  then obtain e where "parse_lines E Map.empty (readlines label_file) = Inl e"
    by (cases "parse_lines E Map.empty (readlines label_file)") auto
  then have "load_annotations E zip_ref = Inl e"
    using assms(3,4) by (simp add: load_annotations_def)
  then have "try_body E source_bucket zip_key target_bucket output_prefix = (Inl e, no_effects)"
    by (simp add: try_body_fetched [OF assms(1,2)])
  then have "process_images_to_tfrecord E source_bucket zip_key target_bucket output_prefix
             = (SysExit 2, \<lparr>logged = [ProcessingError e], tfrecord_file = None,
                            uploaded = []\<rparr>)"
    by (simp add: process_images_to_tfrecord_def no_effects_def)
  with bad show ?thesis by simp
qed

lemma archive_bad_number_find:
  "find (\<lambda>fi. endswith (filename fi) (str ''location.txt'')) archive_bad_number
   = Some (file_entry ''location.txt''
             (''a.jpg 3 10 20 5 8'' @ [CHR 0x0A] @ ''a.jpg car 1 2 3 4'' @ [CHR 0x0A]))"
  by (simp add: archive_bad_number_def file_entry_def endswith_def str_def)

lemma archive_bad_number_open:
  "zip_open archive_bad_number
     (filename (file_entry ''location.txt''
             (''a.jpg 3 10 20 5 8'' @ [CHR 0x0A] @ ''a.jpg car 1 2 3 4'' @ [CHR 0x0A])))
   = Inr (''a.jpg 3 10 20 5 8'' @ [CHR 0x0A] @ ''a.jpg car 1 2 3 4'' @ [CHR 0x0A])"
  by (simp add: archive_bad_number_def file_entry_def zip_open_def str_def)

text \<open>The line \<open>a.jpg car 1 2 3 4\<close>, second line of the label file.\<close>

theorem malformed_number_aborts_witness:
  "parse_line (sample_env archive_bad_number) Map.empty (''a.jpg car 1 2 3 4'' @ [CHR 0x0A])
   = Inl ValueError
   \<and> (\<exists>e. process_images_to_tfrecord (sample_env archive_bad_number) (str ''raw'')
             (str ''plates.zip'') (str ''curated'') (str ''tf'')
           = (SysExit 2, \<lparr>logged = [ProcessingError e], tfrecord_file = None,
                          uploaded = []\<rparr>))
   \<and> exit_code (fst (process_images_to_tfrecord (sample_env archive_bad_number) (str ''raw'')
                       (str ''plates.zip'') (str ''curated'') (str ''tf''))) = 2"
proof -
  let ?E = "sample_env archive_bad_number"
  have mem: "''a.jpg car 1 2 3 4'' @ [CHR 0x0A]
             \<in> set (readlines (''a.jpg 3 10 20 5 8'' @ [CHR 0x0A] @ ''a.jpg car 1 2 3 4''
                                @ [CHR 0x0A]))"
    by simp
  have dec: "utf8_decode (''a.jpg car 1 2 3 4'' @ [CHR 0x0A])
             = Some (str ''a.jpg car 1 2 3 4'' @ [10])"
    by (simp add: str_def)
  have spl: "py_split (py_strip (str ''a.jpg car 1 2 3 4'' @ [10]))
             = [str ''a.jpg'', str ''car'', str ''1'', str ''2'', str ''3'', str ''4'']"
    by (simp add: str_def py_split_def py_strip_def py_isspace_def)
  have bad: "py_int ?E (str ''car'') = None \<or> py_float ?E (str ''1'') = None
             \<or> py_float ?E (str ''2'') = None \<or> py_float ?E (str ''3'') = None
             \<or> py_float ?E (str ''4'') = None"
    by (simp add: sample_env_simps ascii_decimal_def str_def)
  show ?thesis
    by (rule malformed_number_aborts
          [OF sample_env_simps(1) sample_env_simps(2) archive_bad_number_find
              archive_bad_number_open mem dec spl bad])
qed


text \<open>The definitions that evaluate a run on a concrete archive.\<close>

lemmas eval_defs = load_annotations_def file_entry_def endswith_def str_def zip_open_def
  parse_line_def py_split_def py_strip_def py_isspace_def make_bbox_def sample_env_simps
  ascii_decimal_def is_image_def process_entry_def image_to_tfrecord_def make_features_def

lemma archive_bad_image_load:
  "load_annotations (sample_env archive_bad_image) archive_bad_image
   = Inr (Some [str ''a.jpg'' \<mapsto> [\<lparr>xmin = 10, ymin = 20, xmax = 15, ymax = 28, label = 3\<rparr>]])"
  by (simp add: archive_bad_image_def eval_defs)

lemma archive_two_images_load:
  "load_annotations (sample_env archive_two_images) archive_two_images
   = Inr (Some [str ''a.jpg'' \<mapsto> [\<lparr>xmin = 10, ymin = 20, xmax = 15, ymax = 28, label = 3\<rparr>]])"
  by (simp add: archive_two_images_def eval_defs)

lemma archive_bad_image_run:
  "process_images_to_tfrecord (sample_env archive_bad_image) (str ''raw'')
     (str ''plates.zip'') (str ''curated'') (str ''tf'')
   = (SysExit 2,
      \<lparr>logged = [ProcessingError (External ''UnidentifiedImageError'')],
       tfrecord_file = Some [\<lparr>image_bytes = ''AAA'', xmins = [10], xmaxs = [15],
                               ymins = [20], ymaxs = [28], labels = [3]\<rparr>],
       uploaded = []\<rparr>)"
  by (simp add: process_images_to_tfrecord_def
        try_body_fetched [OF sample_env_simps(1) sample_env_simps(2)]
        archive_bad_image_load no_effects_def)
     (simp add: archive_bad_image_def eval_defs no_effects_def)

lemma archive_two_images_run:
  "process_images_to_tfrecord (sample_env archive_two_images) (str ''raw'')
     (str ''plates.zip'') (str ''curated'') (str ''tf'')
   = (Returned,
      \<lparr>logged = [],
       tfrecord_file = Some [\<lparr>image_bytes = ''AAA'', xmins = [10], xmaxs = [15],
                               ymins = [20], ymaxs = [28], labels = [3]\<rparr>,
                             \<lparr>image_bytes = ''BBB'', xmins = [], xmaxs = [],
                               ymins = [], ymaxs = [], labels = []\<rparr>],
       uploaded = [(str ''curated'', str ''tf'' @ str ''/data.tfrecord'',
                    [\<lparr>image_bytes = ''AAA'', xmins = [10], xmaxs = [15],
                               ymins = [20], ymaxs = [28], labels = [3]\<rparr>,
                             \<lparr>image_bytes = ''BBB'', xmins = [], xmaxs = [],
                               ymins = [], ymaxs = [], labels = []\<rparr>])]\<rparr>)"
  by (simp add: process_images_to_tfrecord_def
        try_body_fetched [OF sample_env_simps(1) sample_env_simps(2)]
        archive_two_images_load no_effects_def)
     (simp add: archive_two_images_def eval_defs no_effects_def)





lemma returned_after_image_pass:
  assumes "get_object E source_bucket zip_key = Inr buffer"
    and "ZipFile E buffer = Inr zip_ref"
    and "load_annotations E zip_ref = Inr (Some bboxes)"
    and "process_images_to_tfrecord E source_bucket zip_key target_bucket output_prefix
         = (Returned, eff)"
  shows "\<exists>written. write_images E zip_ref bboxes zip_ref [] = (None, written)
           \<and> eff = no_effects\<lparr>tfrecord_file := Some written,
                 uploaded := [(target_bucket, output_prefix @ str ''/data.tfrecord'',
                               written)]\<rparr>"
proof -
  obtain res written where w: "write_images E zip_ref bboxes zip_ref [] = (res, written)"
    by (cases "write_images E zip_ref bboxes zip_ref []")
  from assms(4) have "\<exists>u. try_body E source_bucket zip_key target_bucket output_prefix
                          = (Inr u, eff)"
    by (auto simp: process_images_to_tfrecord_def split: prod.splits sum.splits)
  then show ?thesis
    using assms(3) w
    by (auto simp: try_body_fetched [OF assms(1,2)] split: option.splits)
qed

text \<open>
  C2: in a run that returns after the image pass, the output file holds exactly one
  record for each entry whose name ends with \<open>.png\<close>, \<open>.jpg\<close> or \<open>.jpeg\<close> (compared code
  point by code point), in the order of the archive listing, each the record that the
  loop body makes for that entry; these records are what is uploaded.
\<close>

theorem image_pass_records:
  assumes "get_object E source_bucket zip_key = Inr buffer"
    and "ZipFile E buffer = Inr zip_ref"
    and "load_annotations E zip_ref = Inr (Some bboxes)"
    and "process_images_to_tfrecord E source_bucket zip_key target_bucket output_prefix
         = (Returned, eff)"
  shows "\<exists>records. tfrecord_file eff = Some records
           \<and> list_all2 (\<lambda>file_info r. process_entry E zip_ref bboxes file_info = Inr r)
               (filter (\<lambda>file_info. is_image (filename file_info)) zip_ref) records
           \<and> length records = length (filter (\<lambda>file_info. is_image (filename file_info)) zip_ref)
           \<and> uploaded eff
             = [(target_bucket, output_prefix @ str ''/data.tfrecord'', records)]"
proof -
  from returned_after_image_pass [OF assms]
  obtain written where w: "write_images E zip_ref bboxes zip_ref [] = (None, written)"
    and eff: "eff = no_effects\<lparr>tfrecord_file := Some written,
               uploaded := [(target_bucket, output_prefix @ str ''/data.tfrecord'', written)]\<rparr>"
    by blast
  from write_images_ok [OF w]
  have all: "list_all2 (\<lambda>file_info r. process_entry E zip_ref bboxes file_info = Inr r)
               (filter (\<lambda>file_info. is_image (filename file_info)) zip_ref) written"
    by simp
  from list_all2_lengthD [OF all] all eff show ?thesis by simp
qed

lemma archive_two_images_filter:
  "filter (\<lambda>file_info. is_image (filename file_info)) archive_two_images
   = [file_entry ''a.jpg'' ''AAA'', file_entry ''b.jpg'' ''BBB'']"
  by (simp add: archive_two_images_def eval_defs)

text \<open>The example of the specification: \<open>a.jpg\<close>, \<open>b.jpg\<close> and labels for \<open>a.jpg\<close> only.\<close>

theorem image_pass_records_witness:
  "process_images_to_tfrecord (sample_env archive_two_images) (str ''raw'')
     (str ''plates.zip'') (str ''curated'') (str ''tf'')
   = (Returned,
      \<lparr>logged = [],
       tfrecord_file = Some [\<lparr>image_bytes = ''AAA'', xmins = [10], xmaxs = [15],
                               ymins = [20], ymaxs = [28], labels = [3]\<rparr>,
                             \<lparr>image_bytes = ''BBB'', xmins = [], xmaxs = [],
                               ymins = [], ymaxs = [], labels = []\<rparr>],
       uploaded = [(str ''curated'', str ''tf'' @ str ''/data.tfrecord'',
                    [\<lparr>image_bytes = ''AAA'', xmins = [10], xmaxs = [15],
                               ymins = [20], ymaxs = [28], labels = [3]\<rparr>,
                             \<lparr>image_bytes = ''BBB'', xmins = [], xmaxs = [],
                               ymins = [], ymaxs = [], labels = []\<rparr>])]\<rparr>)
   \<and> filter (\<lambda>file_info. is_image (filename file_info)) archive_two_images
     = [file_entry ''a.jpg'' ''AAA'', file_entry ''b.jpg'' ''BBB'']
   \<and> list_all2
       (\<lambda>file_info r.
           process_entry (sample_env archive_two_images) archive_two_images
             [str ''a.jpg'' \<mapsto> [\<lparr>xmin = 10, ymin = 20, xmax = 15, ymax = 28, label = 3\<rparr>]]
             file_info = Inr r)
       (filter (\<lambda>file_info. is_image (filename file_info)) archive_two_images)
       [\<lparr>image_bytes = ''AAA'', xmins = [10], xmaxs = [15], ymins = [20], ymaxs = [28],
          labels = [3]\<rparr>,
        \<lparr>image_bytes = ''BBB'', xmins = [], xmaxs = [], ymins = [], ymaxs = [],
          labels = []\<rparr>]"
proof -
  from image_pass_records [OF sample_env_simps(1) sample_env_simps(2)
         archive_two_images_load archive_two_images_run]
  have "list_all2
       (\<lambda>file_info r.
           process_entry (sample_env archive_two_images) archive_two_images
             [str ''a.jpg'' \<mapsto> [\<lparr>xmin = 10, ymin = 20, xmax = 15, ymax = 28, label = 3\<rparr>]]
             file_info = Inr r)
       (filter (\<lambda>file_info. is_image (filename file_info)) archive_two_images)
       [\<lparr>image_bytes = ''AAA'', xmins = [10], xmaxs = [15], ymins = [20], ymaxs = [28],
          labels = [3]\<rparr>,
        \<lparr>image_bytes = ''BBB'', xmins = [], xmaxs = [], ymins = [], ymaxs = [],
          labels = []\<rparr>]"
    by auto
  with archive_two_images_run archive_two_images_filter show ?thesis by blast
qed

lemma output_file_of_run:
  assumes "get_object E source_bucket zip_key = Inr buffer"
  shows "tfrecord_file (snd (process_images_to_tfrecord E source_bucket zip_key target_bucket
                               output_prefix))
         = (case ZipFile E buffer of
              Inl e \<Rightarrow> None
            | Inr zip_ref \<Rightarrow>
                (case load_annotations E zip_ref of
                   Inl e \<Rightarrow> None
                 | Inr None \<Rightarrow> None
                 | Inr (Some bboxes) \<Rightarrow>
                     (case writer_open E of
                        Some e \<Rightarrow> None
                      | None \<Rightarrow> Some (snd (write_images E zip_ref bboxes zip_ref [])))))"
  using assms
  by (auto simp: process_images_to_tfrecord_def try_body_def no_effects_def
           split: sum.splits option.splits prod.splits)

lemma write_images_append:
  "write_images E z b (xs @ ys) written =
     (case write_images E z b xs written of
        (Some e, out) \<Rightarrow> (Some e, out)
      | (None, out) \<Rightarrow> write_images E z b ys out)"
  by (induction xs arbitrary: written) (auto split: sum.splits)

lemma write_images_extends:
  "\<exists>rs. snd (write_images E z b es written) = written @ rs"
proof (induction es arbitrary: written)
  case Nil
  then show ?case by simp
next
  case (Cons fi es)
  show ?case
  proof (cases "is_image (filename fi)")
    case False
    with Cons show ?thesis by simp
  next
    case True
    show ?thesis
    proof (cases "process_entry E z b fi")
      case (Inl e)
      with True show ?thesis by simp
    next
      case (Inr r)
      from Cons [of "written @ [r]"] obtain rs
        where "snd (write_images E z b es (written @ [r])) = (written @ [r]) @ rs" by blast
      with True Inr show ?thesis by simp
    qed
  qed
qed

text \<open>
  C6: an image entry whose base filename (the last segment of its name) is not a key of
  the index raises nothing by that: when the entry is read, decoded, encoded and written
  without an exception, its processing gives the record that serializes the JPEG bytes
  of the image with the four coordinate lists and the label list empty; and when the
  entries before it were processed without an exception, this record is in the output
  file of the run, right after theirs.
\<close>

theorem absent_image_record:
  assumes "get_object E source_bucket zip_key = Inr buffer"
    and "ZipFile E buffer = Inr zip_ref"
    and "load_annotations E zip_ref = Inr (Some bboxes)"
    and "writer_open E = None"
    and "zip_ref = before @ file_info # rest"
    and "write_images E zip_ref bboxes before [] = (None, earlier)"
    and "is_image (filename file_info)"
    and "bboxes (last (split_on 47 (filename file_info))) = None"
    and "zip_open zip_ref (filename file_info) = Inr file"
    and "Image_open E file = Inr img"
    and "save_jpeg E img = Inr jpg"
    and "SerializeToString E \<lparr>image_bytes = jpg, xmins = [], xmaxs = [], ymins = [],
                                ymaxs = [], labels = []\<rparr> = Inr r"
    and "writer_write E r = None"
  shows "process_entry E zip_ref bboxes file_info = Inr r
         \<and> (\<exists>later. tfrecord_file
                       (snd (process_images_to_tfrecord E source_bucket zip_key
                               target_bucket output_prefix))
                     = Some (earlier @ r # later))"
proof -
  have entry: "process_entry E zip_ref bboxes file_info = Inr r"
    using assms(8-13)
    by (simp add: process_entry_def image_to_tfrecord_def make_features_def)
  have "write_images E zip_ref bboxes (before @ file_info # rest) []
        = write_images E zip_ref bboxes rest (earlier @ [r])"
    using assms(6,7) entry by (simp add: write_images_append)
  moreover obtain later
    where "snd (write_images E zip_ref bboxes rest (earlier @ [r])) = (earlier @ [r]) @ later"
    using write_images_extends by blast
  ultimately have "snd (write_images E zip_ref bboxes zip_ref []) = earlier @ r # later"
    using assms(5) by simp
  then have "tfrecord_file (snd (process_images_to_tfrecord E source_bucket zip_key
                                   target_bucket output_prefix))
             = Some (earlier @ r # later)"
    using assms(2,3,4) by (simp add: output_file_of_run [OF assms(1)])
  with entry show ?thesis by blast
qed

text \<open>The example of the specification: \<open>b.jpg\<close>, the second image, has no label line.\<close>

theorem absent_image_record_witness:
  "process_entry (sample_env archive_two_images) archive_two_images
     [str ''a.jpg'' \<mapsto> [\<lparr>xmin = 10, ymin = 20, xmax = 15, ymax = 28, label = 3\<rparr>]]
     (file_entry ''b.jpg'' ''BBB'')
   = Inr \<lparr>image_bytes = ''BBB'', xmins = [], xmaxs = [], ymins = [], ymaxs = [],
          labels = []\<rparr>
   \<and> (\<exists>later. tfrecord_file
                 (snd (process_images_to_tfrecord (sample_env archive_two_images)
                         (str ''raw'') (str ''plates.zip'') (str ''curated'') (str ''tf'')))
               = Some ([\<lparr>image_bytes = ''AAA'', xmins = [10], xmaxs = [15], ymins = [20],
                         ymaxs = [28], labels = [3]\<rparr>]
                       @ \<lparr>image_bytes = ''BBB'', xmins = [], xmaxs = [], ymins = [],
                           ymaxs = [], labels = []\<rparr> # later))"
proof -
  let ?E = "sample_env archive_two_images"
  let ?idx = "[str ''a.jpg'' \<mapsto> [\<lparr>xmin = 10::int, ymin = 20, xmax = 15, ymax = 28,
                                    label = 3\<rparr>]]"
  let ?b = "file_entry ''b.jpg'' ''BBB''"
  have parts: "archive_two_images
               = [file_entry ''a.jpg'' ''AAA''] @ ?b
                 # [file_entry ''location.txt'' (''a.jpg 3 10 20 5 8'' @ [CHR 0x0A])]"
    by (simp add: archive_two_images_def)
  have first: "write_images ?E archive_two_images ?idx [file_entry ''a.jpg'' ''AAA''] []
               = (None, [\<lparr>image_bytes = ''AAA'', xmins = [10], xmaxs = [15],
                           ymins = [20], ymaxs = [28], labels = [3]\<rparr>])"
    by (simp add: archive_two_images_def eval_defs)
  have img: "is_image (filename ?b)"
    by (simp add: eval_defs)
  have absent: "?idx (last (split_on 47 (filename ?b))) = None"
    by (simp add: file_entry_def str_def)
  have opened: "zip_open archive_two_images (filename ?b) = Inr ''BBB''"
    by (simp add: archive_two_images_def eval_defs)
  have dec: "Image_open ?E ''BBB'' = Inr ''BBB''" and jpg: "save_jpeg ?E ''BBB'' = Inr ''BBB''"
    and ser: "SerializeToString ?E \<lparr>image_bytes = ''BBB'', xmins = [], xmaxs = [],
                ymins = [], ymaxs = [], labels = []\<rparr>
              = Inr \<lparr>image_bytes = ''BBB'', xmins = [], xmaxs = [], ymins = [],
                     ymaxs = [], labels = []\<rparr>"
    and wr: "writer_write ?E \<lparr>image_bytes = ''BBB'', xmins = [], xmaxs = [],
                ymins = [], ymaxs = [], labels = []\<rparr> = None"
    by (simp_all add: sample_env_simps)
  show ?thesis
    by (rule absent_image_record [OF sample_env_simps(1) sample_env_simps(2)
            archive_two_images_load sample_env_simps(9) parts first img absent opened
            dec jpg ser wr])
qed

section \<open>Keys of the index and the lookup of an image\<close>

lemma split_on_not_empty: "split_on sep s \<noteq> []"
  by (induction s) (auto split: list.splits)

lemma last_split_on_no_sep: "sep \<notin> set (last (split_on sep s))"
proof (induction s)
  case Nil
  then show ?case by simp
next
  case (Cons c s)
  show ?case
  proof (cases "c = sep")
    case True
    with Cons split_on_not_empty [of sep s] show ?thesis by simp
  next
    case False
    obtain t ts where ts: "split_on sep s = t # ts"
      using split_on_not_empty [of sep s] by (cases "split_on sep s") auto
    show ?thesis
    proof (cases ts)
      case Nil
      with Cons ts False show ?thesis by simp
    next
      case (Cons u us)
      with Cons.IH ts False show ?thesis by simp
    qed
  qed
qed

lemma parse_line_grows:
  assumes "parse_line E bboxes line = Inr bboxes'" and "bboxes k = Some bs"
  shows "\<exists>bs'. bboxes' k = Some (bs @ bs')"
proof (cases "utf8_decode line")
  case None
  with assms show ?thesis by (simp add: parse_line_def)
next
  case (Some decoded)
  show ?thesis
  proof (cases "length (py_split (py_strip decoded)) = 6")
    case False
    from parse_line_not_six [OF Some False, of E bboxes] assms show ?thesis by simp
  next
    case True
    then obtain n c x y w h where six: "py_split (py_strip decoded) = [n, c, x, y, w, h]"
      by (auto simp: length_Suc_conv eval_nat_numeral)
    from parse_line_six [OF Some six, of E bboxes] assms show ?thesis
      by (auto split: sum.splits)
  qed
qed

lemma parse_lines_grows:
  "parse_lines E bboxes ls = Inr bboxes' \<Longrightarrow> bboxes k = Some bs \<Longrightarrow>
   \<exists>bs'. bboxes' k = Some (bs @ bs')"
proof (induction ls arbitrary: bboxes bs)
  case Nil
  then show ?case by simp
next
  case (Cons l ls)
  from Cons.prems(1) obtain b1 where l: "parse_line E bboxes l = Inr b1"
    and rest: "parse_lines E b1 ls = Inr bboxes'"
    by (auto split: sum.splits)
  from parse_line_grows [OF l Cons.prems(2)] obtain bs1 where "b1 k = Some (bs @ bs1)"
    by blast
  from Cons.IH [OF rest this] show ?case by auto
qed

text \<open>
  C8, as the code has it: the keys of the index are the \<open>image_name\<close> tokens of the accepted
  lines, as written in the label file, and the loop body looks an image up by the last
  segment of its entry name, which never contains \<open>/\<close>. So for every accepted line of the
  label file and every archive image whose last path segment is the \<open>image_name\<close> token
  of the line, the record of the image is encoded from the list kept under that key,
  which holds the box of the line.
\<close>

theorem label_lookup_by_basename:
  assumes "find (\<lambda>fi. endswith (filename fi) (str ''location.txt'')) zip_ref
           = Some label_info"
    and "zip_open zip_ref (filename label_info) = Inr label_file"
    and "readlines label_file = before @ line # after"
    and "load_annotations E zip_ref = Inr (Some index)"
    and "utf8_decode line = Some decoded"
    and "py_split (py_strip decoded) = [image_name, class_id, x, y, width, height]"
    and "last (split_on 47 (filename file_info)) = image_name"
    and "zip_open zip_ref (filename file_info) = Inr file"
    and "Image_open E file = Inr img"
  shows "47 \<notin> set image_name
         \<and> (\<exists>b bs. make_bbox E class_id x y width height = Inr b
                  \<and> index image_name = Some bs \<and> b \<in> set bs
                  \<and> process_entry E zip_ref index file_info
                    = (case image_to_tfrecord E img bs of
                         Inl e \<Rightarrow> Inl e
                       | Inr tfrecord \<Rightarrow>
                           (case writer_write E tfrecord of
                              Some e \<Rightarrow> Inl e
                            | None \<Rightarrow> Inr tfrecord)))"
proof -
  from assms(1,2,3,4) have "parse_lines E Map.empty (before @ line # after) = Inr index"
    by (auto simp: load_annotations_def split: sum.splits)
  then obtain b1 b2 where "parse_lines E Map.empty before = Inr b1"
    and l: "parse_line E b1 line = Inr b2"
    and rest: "parse_lines E b2 after = Inr index"
    by (auto simp: parse_lines_append split: sum.splits)
  from l parse_line_six [OF assms(5,6), of E b1]
  obtain b where b: "make_bbox E class_id x y width height = Inr b"
    and "b2 image_name = Some ((case b1 image_name of None \<Rightarrow> [] | Some bs \<Rightarrow> bs) @ [b])"
    by (auto split: sum.splits)
  from parse_lines_grows [OF rest this(2)]
  obtain bs where bs: "index image_name = Some bs" and mem: "b \<in> set bs"
    by auto
  have "process_entry E zip_ref index file_info
        = (case image_to_tfrecord E img bs of
             Inl e \<Rightarrow> Inl e
           | Inr tfrecord \<Rightarrow>
               (case writer_write E tfrecord of
                  Some e \<Rightarrow> Inl e
                | None \<Rightarrow> Inr tfrecord))"
    using assms(7,8,9) bs by (simp add: process_entry_def)
  moreover have "47 \<notin> set image_name"
    using last_split_on_no_sep [of 47 "filename file_info"] assms(7) by simp
  ultimately show ?thesis using b bs mem by blast
qed

lemma archive_nested_load:
  "load_annotations (sample_env archive_nested) archive_nested
   = Inr (Some [str ''d/a.jpg'' \<mapsto> [\<lparr>xmin = 2, ymin = 3, xmax = 6, ymax = 8, label = 1\<rparr>]])"
  by (simp add: archive_nested_def eval_defs)

lemma archive_nested_run:
  "process_images_to_tfrecord (sample_env archive_nested) (str ''raw'')
     (str ''plates.zip'') (str ''curated'') (str ''tf'')
   = (Returned,
      \<lparr>logged = [],
       tfrecord_file = Some [\<lparr>image_bytes = ''AAA'', xmins = [], xmaxs = [],
                               ymins = [], ymaxs = [], labels = []\<rparr>],
       uploaded = [(str ''curated'', str ''tf'' @ str ''/data.tfrecord'',
                    [\<lparr>image_bytes = ''AAA'', xmins = [], xmaxs = [],
                               ymins = [], ymaxs = [], labels = []\<rparr>])]\<rparr>)"
  by (simp add: process_images_to_tfrecord_def
        try_body_fetched [OF sample_env_simps(1) sample_env_simps(2)]
        archive_nested_load no_effects_def)
     (simp add: archive_nested_def eval_defs no_effects_def)

text \<open>
  The property as the specification states it fails when the label file names an image
  with its directory: the
  key \<open>d/a.jpg\<close> has a directory component, the lookup of the entry \<open>d/a.jpg\<close> is by
  \<open>a.jpg\<close>, and the record of the image has no box.
\<close>

theorem nested_label_name_counterexample:
  "load_annotations (sample_env archive_nested) archive_nested
   = Inr (Some [str ''d/a.jpg'' \<mapsto> [\<lparr>xmin = 2, ymin = 3, xmax = 6, ymax = 8, label = 1\<rparr>]])
   \<and> 47 \<in> set (str ''d/a.jpg'')
   \<and> last (split_on 47 (str ''d/a.jpg'')) = str ''a.jpg''
   \<and> [str ''d/a.jpg'' \<mapsto> [\<lparr>xmin = 2::int, ymin = 3, xmax = 6, ymax = 8, label = 1\<rparr>]]
       (str ''a.jpg'') = None
   \<and> tfrecord_file (snd (process_images_to_tfrecord (sample_env archive_nested) (str ''raw'')
                            (str ''plates.zip'') (str ''curated'') (str ''tf'')))
     = Some [\<lparr>image_bytes = ''AAA'', xmins = [], xmaxs = [], ymins = [], ymaxs = [],
               labels = []\<rparr>]"
  by (simp add: archive_nested_load archive_nested_run) (simp add: str_def)


lemma archive_subdir_find:
  "find (\<lambda>fi. endswith (filename fi) (str ''location.txt'')) archive_subdir
   = Some (file_entry ''imgs/location.txt'' (''a.jpg 3 10 20 5 8'' @ [CHR 0x0A]))"
  by (simp add: archive_subdir_def file_entry_def endswith_def str_def)

lemma archive_subdir_load:
  "load_annotations (sample_env archive_subdir) archive_subdir
   = Inr (Some [str ''a.jpg'' \<mapsto> [\<lparr>xmin = 10, ymin = 20, xmax = 15, ymax = 28, label = 3\<rparr>]])"
  by (simp add: archive_subdir_def eval_defs)

text \<open>
  The entry \<open>imgs/a.jpg\<close> gets the box of the line \<open>a.jpg 3 10 20 5 8\<close> in its record.
\<close>

theorem label_lookup_by_basename_witness:
  "process_entry (sample_env archive_subdir) archive_subdir
     [str ''a.jpg'' \<mapsto> [\<lparr>xmin = 10, ymin = 20, xmax = 15, ymax = 28, label = 3\<rparr>]]
     (file_entry ''imgs/a.jpg'' ''AAA'')
   = Inr \<lparr>image_bytes = ''AAA'', xmins = [10], xmaxs = [15], ymins = [20], ymaxs = [28],
          labels = [3]\<rparr>
   \<and> 47 \<notin> set (str ''a.jpg'')
   \<and> (\<exists>b bs. make_bbox (sample_env archive_subdir) (str ''3'') (str ''10'') (str ''20'')
                 (str ''5'') (str ''8'') = Inr b
             \<and> [str ''a.jpg'' \<mapsto> [\<lparr>xmin = 10::int, ymin = 20, xmax = 15, ymax = 28,
                                      label = 3\<rparr>]] (str ''a.jpg'') = Some bs
             \<and> b \<in> set bs
             \<and> process_entry (sample_env archive_subdir) archive_subdir
                 [str ''a.jpg'' \<mapsto> [\<lparr>xmin = 10, ymin = 20, xmax = 15, ymax = 28,
                                       label = 3\<rparr>]]
                 (file_entry ''imgs/a.jpg'' ''AAA'')
               = (case image_to_tfrecord (sample_env archive_subdir) ''AAA'' bs of
                    Inl e \<Rightarrow> Inl e
                  | Inr tfrecord \<Rightarrow>
                      (case writer_write (sample_env archive_subdir) tfrecord of
                         Some e \<Rightarrow> Inl e
                       | None \<Rightarrow> Inr tfrecord)))"
proof -
  let ?E = "sample_env archive_subdir"
  have opened: "zip_open archive_subdir
                  (filename (file_entry ''imgs/location.txt''
                               (''a.jpg 3 10 20 5 8'' @ [CHR 0x0A])))
                = Inr (''a.jpg 3 10 20 5 8'' @ [CHR 0x0A])"
    by (simp add: archive_subdir_def eval_defs)
  have lines: "readlines (''a.jpg 3 10 20 5 8'' @ [CHR 0x0A])
               = [] @ (''a.jpg 3 10 20 5 8'' @ [CHR 0x0A]) # []"
    by simp
  have dec: "utf8_decode (''a.jpg 3 10 20 5 8'' @ [CHR 0x0A])
             = Some (str ''a.jpg 3 10 20 5 8'' @ [10])"
    by (simp add: str_def)
  have spl: "py_split (py_strip (str ''a.jpg 3 10 20 5 8'' @ [10]))
             = [str ''a.jpg'', str ''3'', str ''10'', str ''20'', str ''5'', str ''8'']"
    by (simp add: str_def py_split_def py_strip_def py_isspace_def)
  have name: "last (split_on 47 (filename (file_entry ''imgs/a.jpg'' ''AAA''))) = str ''a.jpg''"
    by (simp add: file_entry_def str_def)
  have img: "zip_open archive_subdir (filename (file_entry ''imgs/a.jpg'' ''AAA''))
             = Inr ''AAA''"
    by (simp add: archive_subdir_def eval_defs)
  have pil: "Image_open ?E ''AAA'' = Inr ''AAA''"
    by (simp add: sample_env_simps)
  have run: "process_entry ?E archive_subdir
     [str ''a.jpg'' \<mapsto> [\<lparr>xmin = 10, ymin = 20, xmax = 15, ymax = 28, label = 3\<rparr>]]
     (file_entry ''imgs/a.jpg'' ''AAA'')
   = Inr \<lparr>image_bytes = ''AAA'', xmins = [10], xmaxs = [15], ymins = [20], ymaxs = [28],
          labels = [3]\<rparr>"
    by (simp add: archive_subdir_def eval_defs)
  show ?thesis
    by (rule conjI [OF run label_lookup_by_basename
                         [OF archive_subdir_find opened lines archive_subdir_load dec spl
                             name img pil]])
qed

end
